theory Spec2Isabelle
  imports Complex_Main
begin

section \<open>The platform: Python floats and URL validation\<close>

text \<open>
  Prices and totals are Python floats. Their arithmetic is a parameter of the whole
  development: a type \<open>'f\<close> of floats with the operations the program uses. Every theorem
  below holds for every such arithmetic, so in particular for IEEE doubles.
  \<^item> \<open>float_of\<close> is the float nearest to a rational: the float literals of the source
    (\<open>0.0\<close>, \<open>4.8\<close>) and the constants of the schema (\<open>float(0)\<close>, the bounds \<open>0\<close> and \<open>5\<close>).
  \<^item> \<open>float_of_int\<close> is the conversion of an integer met at run time, as for the integer
    operand of \<open>float * int\<close>: \<open>None\<close> when the integer is beyond the range of a float, where
    Python raises \<open>OverflowError\<close>.
  \<^item> \<open>round2\<close> is \<open>round(x, 2)\<close>.
  \<^item> \<open>http_url_ok\<close> is the validation of an \<open>HttpUrl\<close> by the schema library.
\<close>

record 'f platform =
  float_add :: "'f \<Rightarrow> 'f \<Rightarrow> 'f"
  float_mul :: "'f \<Rightarrow> 'f \<Rightarrow> 'f"
  float_le :: "'f \<Rightarrow> 'f \<Rightarrow> bool"
  float_of :: "rat \<Rightarrow> 'f"
  float_of_int :: "int \<Rightarrow> 'f option"
  round2 :: "'f \<Rightarrow> 'f"
  http_url_ok :: "string \<Rightarrow> bool"

text \<open>
  One concrete platform, used to run the model on examples: exact decimal arithmetic on
  rationals, integers converted when they are below \<open>2 ^ 1024\<close> in absolute value (the range
  of a double), rounding half up to two places, and URLs recognised by their scheme.
\<close>

definition url_scheme_ok :: "string \<Rightarrow> bool" where
  "url_scheme_ok s = (take 7 s = ''http://'' \<and> 7 < length s \<or> take 8 s = ''https://'' \<and> 8 < length s)"

definition exact_platform :: "rat platform" where
  "exact_platform =
     \<lparr> float_add = (\<lambda>a b. a + b),
       float_mul = (\<lambda>a b. a * b),
       float_le = (\<lambda>a b. a \<le> b),
       float_of = (\<lambda>r. r),
       float_of_int = (\<lambda>i. if \<bar>i\<bar> < 2 ^ 1024 then Some (of_int i) else None),
       round2 = (\<lambda>r. of_int (floor (r * 100 + 1 / 2)) / 100),
       http_url_ok = url_scheme_ok \<rparr>"

section \<open>Store identifiers (bson.ObjectId)\<close>

text \<open>
  An \<open>ObjectId\<close> is kept as its canonical string form, 24 lower-case hexadecimal digits.
  \<open>ObjectId(s)\<close> on a string raises \<open>InvalidId\<close> unless \<open>s\<close> is 24 hexadecimal digits
  (either case); \<open>str(oid)\<close> gives the lower-case digits back.
\<close>

datatype objectid = Oid string

definition is_hex_digit :: "char \<Rightarrow> bool" where
  "is_hex_digit c = (c \<in> set ''0123456789abcdefABCDEF'')"

definition lower_hex :: "char \<Rightarrow> char" where
  "lower_hex c =
     (if c = CHR ''A'' then CHR ''a'' else if c = CHR ''B'' then CHR ''b''
      else if c = CHR ''C'' then CHR ''c'' else if c = CHR ''D'' then CHR ''d''
      else if c = CHR ''E'' then CHR ''e'' else if c = CHR ''F'' then CHR ''f'' else c)"

definition ObjectId :: "string \<Rightarrow> objectid option" where
  "ObjectId s =
     (if length s = 24 \<and> list_all is_hex_digit s then Some (Oid (map lower_hex s)) else None)"

fun str_oid :: "objectid \<Rightarrow> string" where
  "str_oid (Oid s) = s"

fun hex_of :: "nat \<Rightarrow> nat \<Rightarrow> string" where
  "hex_of 0 n = []"
| "hex_of (Suc w) n = hex_of w (n div 16) @ [''0123456789abcdef'' ! (n mod 16)]"

text \<open>
  The \<open>_id\<close> of a document as the driver hands it over. The store assigns an \<open>ObjectId\<close>; a
  document written by another client may carry an integer or a string instead, or a value
  of any other type, which is known here by the two things the program does with it: its
  truth value (\<open>if _id\<close>) and what \<open>str(_id)\<close> gives, \<open>None\<close> when \<open>str\<close> raises. A truth
  test that raises is caught where \<open>str\<close> raising is, with the result of a false value, and
  is read as one.
\<close>

datatype ident =
    ObjId objectid
  | IntId int
  | StrId string
  | OtherId bool "string option"

function str_nat :: "nat \<Rightarrow> string" where
  "str_nat n =
     (if n < 10 then [''0123456789'' ! n] else str_nat (n div 10) @ [''0123456789'' ! (n mod 10)])"
  by pat_completeness auto
termination by (relation "measure id") auto

declare str_nat.simps [simp del]

definition str_int :: "int \<Rightarrow> string" where
  "str_int i = (if i < 0 then CHR ''-'' # str_nat (nat (- i)) else str_nat (nat i))"

text \<open>\<open>bool(v)\<close>: an \<open>ObjectId\<close> is always true, an integer unless it is 0, a string unless empty.\<close>

fun truthy :: "ident \<Rightarrow> bool" where
  "truthy (ObjId oid) = True"
| "truthy (IntId i) = (i \<noteq> 0)"
| "truthy (StrId s) = (s \<noteq> [])"
| "truthy (OtherId b r) = b"

text \<open>\<open>str(v)\<close>, with \<open>None\<close> for an exception.\<close>

fun str_ident :: "ident \<Rightarrow> string option" where
  "str_ident (ObjId oid) = Some (str_oid oid)"
| "str_ident (IntId i) = Some (str_int i)"
| "str_ident (StrId s) = Some s"
| "str_ident (OtherId b r) = r"

section \<open>Schemas (schemas.py)\<close>

datatype loc = Fld string | Idx nat

datatype error =
    HTTPException nat string
  | ValidationError "loc list list"
  | OverflowError
  | StoreUnavailable
  | WriteError

text \<open>
  The keyword arguments of \<open>DroneProduct(...)\<close>, and equally the fields of a stored product
  document: each field may be missing, and a field that is there has the type the schema
  gives it.
\<close>

record 'f product_fields =
  kw_title :: "string option"
  kw_description :: "string option"
  kw_price :: "'f option"
  kw_category :: "string option"
  kw_images :: "string list option"
  kw_in_stock :: "bool option"
  kw_stock_qty :: "int option"
  kw_rating :: "'f option"
  kw_featured :: "bool option"
  kw_tags :: "string list option"
  kw_specs :: "(string \<times> string) list option"

record 'f DroneProduct =
  title :: string
  description :: "string option"
  price :: 'f
  category :: string
  images :: "string list"
  in_stock :: bool
  stock_qty :: int
  rating :: 'f
  featured :: bool
  tags :: "string list"
  specs :: "(string \<times> string) list"

text \<open>The errors of one field, in the order of the schema: \<open>Field(..., ge=0)\<close> and the like.\<close>

definition required_errors :: "string \<Rightarrow> 'a option \<Rightarrow> loc list list" where
  "required_errors name v = (case v of None \<Rightarrow> [[Fld name]] | Some _ \<Rightarrow> [])"

definition price_errors :: "'f platform \<Rightarrow> 'f option \<Rightarrow> loc list list" where
  "price_errors pf v =
     (case v of None \<Rightarrow> [[Fld ''price'']]
      | Some p \<Rightarrow> if float_le pf (float_of pf 0) p then [] else [[Fld ''price'']])"

definition images_errors :: "'f platform \<Rightarrow> string list option \<Rightarrow> loc list list" where
  "images_errors pf v =
     (case v of None \<Rightarrow> []
      | Some us \<Rightarrow> map (\<lambda>i. [Fld ''images'', Idx i])
                    (filter (\<lambda>i. \<not> http_url_ok pf (us ! i)) [0..<length us]))"

definition stock_qty_errors :: "int option \<Rightarrow> loc list list" where
  "stock_qty_errors v =
     (case v of None \<Rightarrow> [] | Some q \<Rightarrow> if 0 \<le> q then [] else [[Fld ''stock_qty'']])"

definition rating_errors :: "'f platform \<Rightarrow> 'f option \<Rightarrow> loc list list" where
  "rating_errors pf v =
     (case v of None \<Rightarrow> []
      | Some r \<Rightarrow> if float_le pf (float_of pf 0) r \<and> float_le pf r (float_of pf 5) then []
                  else [[Fld ''rating'']])"

definition DroneProduct_errors :: "'f platform \<Rightarrow> 'f product_fields \<Rightarrow> loc list list" where
  "DroneProduct_errors pf kw =
     required_errors ''title'' (kw_title kw) @ price_errors pf (kw_price kw) @
     required_errors ''category'' (kw_category kw) @ images_errors pf (kw_images kw) @
     stock_qty_errors (kw_stock_qty kw) @ rating_errors pf (kw_rating kw)"

definition or_default :: "'a \<Rightarrow> 'a option \<Rightarrow> 'a" where
  "or_default d v = (case v of None \<Rightarrow> d | Some x \<Rightarrow> x)"

definition new_DroneProduct :: "'f platform \<Rightarrow> 'f product_fields \<Rightarrow> error + 'f DroneProduct" where
  "new_DroneProduct pf kw =
     (case (DroneProduct_errors pf kw, kw_title kw, kw_price kw, kw_category kw) of
        ([], Some t, Some p, Some c) \<Rightarrow>
          Inr \<lparr> title = t, description = kw_description kw, price = p, category = c,
                images = or_default [] (kw_images kw),
                in_stock = or_default True (kw_in_stock kw),
                stock_qty = or_default 10 (kw_stock_qty kw),
                rating = or_default (float_of pf (24 / 5)) (kw_rating kw),
                featured = or_default False (kw_featured kw),
                tags = or_default [] (kw_tags kw),
                specs = or_default [] (kw_specs kw) \<rparr>
      | (es, _, _, _) \<Rightarrow> Inl (ValidationError es))"

text \<open>
  \<open>class DroneProductOut(DroneProduct): id: str\<close> (main.py). A keyword that is not a field
  of the model is ignored by the library, so the constructor reads the schema's fields only.
\<close>

record 'f DroneProductOut = "'f DroneProduct" +
  id_str :: string

definition new_DroneProductOut ::
  "'f platform \<Rightarrow> string \<Rightarrow> 'f product_fields \<Rightarrow> error + 'f DroneProductOut" where
  "new_DroneProductOut pf i kw =
     (case new_DroneProduct pf kw of
        Inl e \<Rightarrow> Inl e
      | Inr p \<Rightarrow> Inr (DroneProduct.extend p (DroneProductOut.fields i)))"

text \<open>
  \<open>Order\<close>: \<open>items: List[Dict[str, int]]\<close>, \<open>total: float = Field(..., ge=0)\<close>,
  \<open>status: str = Field("pending")\<close>. The values of an item dictionary are validated as
  integers. \<open>create_order\<close> passes \<open>{"product_id": <str>, "qty": <int>}\<close>: the library
  takes an \<open>int\<close> as it is and a \<open>str\<close> only when it spells an integer, which it then
  converts; any other string is a validation error at that key.
\<close>

definition digit_val :: "char \<Rightarrow> nat option" where
  "digit_val =
     map_of [(CHR ''0'', 0), (CHR ''1'', 1), (CHR ''2'', 2), (CHR ''3'', 3), (CHR ''4'', 4),
             (CHR ''5'', 5), (CHR ''6'', 6), (CHR ''7'', 7), (CHR ''8'', 8), (CHR ''9'', 9)]"

fun digits_val :: "nat \<Rightarrow> string \<Rightarrow> nat option" where
  "digits_val acc [] = Some acc"
| "digits_val acc (c # cs) =
     (case digit_val c of None \<Rightarrow> None | Some d \<Rightarrow> digits_val (acc * 10 + d) cs)"

text \<open>A string as an integer: an optional sign, then one or more decimal digits.\<close>

definition int_of_str :: "string \<Rightarrow> int option" where
  "int_of_str s =
     (case s of
        [] \<Rightarrow> None
      | c # cs \<Rightarrow>
          if c = CHR ''-'' then (if cs = [] then None else map_option (\<lambda>n. - int n) (digits_val 0 cs))
          else if c = CHR ''+'' then (if cs = [] then None else map_option int (digits_val 0 cs))
          else map_option int (digits_val 0 s))"

record 'f Order =
  email :: string
  items :: "(string \<times> int) list list"
  total :: 'f
  status :: string

text \<open>The item as \<open>create_order\<close> writes it: the product id is a string, the quantity an integer.\<close>

record item_dict =
  d_product_id :: string
  d_qty :: int

definition item_errors :: "nat \<Rightarrow> item_dict \<Rightarrow> loc list list" where
  "item_errors i d =
     (case int_of_str (d_product_id d) of
        None \<Rightarrow> [[Fld ''items'', Idx i, Fld ''product_id'']]
      | Some _ \<Rightarrow> [])"

definition validated_item :: "item_dict \<Rightarrow> (string \<times> int) list" where
  "validated_item d =
     [(''product_id'', or_default 0 (int_of_str (d_product_id d))), (''qty'', d_qty d)]"

definition Order_errors :: "'f platform \<Rightarrow> item_dict list \<Rightarrow> 'f \<Rightarrow> loc list list" where
  "Order_errors pf ds t =
     concat (map (\<lambda>i. item_errors i (ds ! i)) [0..<length ds]) @
     (if float_le pf (float_of pf 0) t then [] else [[Fld ''total'']])"

definition new_Order ::
  "'f platform \<Rightarrow> string \<Rightarrow> item_dict list \<Rightarrow> 'f \<Rightarrow> string option \<Rightarrow> error + 'f Order" where
  "new_Order pf e ds t st =
     (case Order_errors pf ds t of
        [] \<Rightarrow> Inr \<lparr> email = e, items = map validated_item ds, total = t,
                    status = or_default ''pending'' st \<rparr>
      | es \<Rightarrow> Inl (ValidationError es))"

section \<open>The document store\<close>

text \<open>
  A stored document has an identifier (\<open>_id\<close>, which a document handed to the program may
  lack) and a body: the dump of a product or of an order. A collection is a list of
  documents in insertion order; \<open>db\<close> is \<open>None\<close> when no database is configured.
\<close>

datatype 'f body = ProductBody "'f product_fields" | OrderBody "'f Order"

record 'f document =
  doc_id :: "ident option"
  body :: "'f body"

record 'f database =
  collections :: "string \<Rightarrow> 'f document list"
  next_id :: nat

text \<open>The values a document holds, and a document read as the dictionary the driver returns.\<close>

datatype 'f val =
    VNone
  | VBool bool
  | VInt int
  | VFloat 'f
  | VStr string
  | VOid objectid
  | VList "'f val list"
  | VDict "(string \<times> 'f val) list"
  | VOther bool "string option"

fun val_of_ident :: "ident \<Rightarrow> 'f val" where
  "val_of_ident (ObjId oid) = VOid oid"
| "val_of_ident (IntId i) = VInt i"
| "val_of_ident (StrId s) = VStr s"
| "val_of_ident (OtherId b r) = VOther b r"

definition entry :: "string \<Rightarrow> ('a \<Rightarrow> 'f val) \<Rightarrow> 'a option \<Rightarrow> (string \<times> 'f val) list" where
  "entry k f v = (case v of None \<Rightarrow> [] | Some x \<Rightarrow> [(k, f x)])"

definition product_dict :: "'f product_fields \<Rightarrow> (string \<times> 'f val) list" where
  "product_dict kw =
     entry ''title'' VStr (kw_title kw) @
     entry ''description'' VStr (kw_description kw) @
     entry ''price'' VFloat (kw_price kw) @
     entry ''category'' VStr (kw_category kw) @
     entry ''images'' (\<lambda>us. VList (map VStr us)) (kw_images kw) @
     entry ''in_stock'' VBool (kw_in_stock kw) @
     entry ''stock_qty'' VInt (kw_stock_qty kw) @
     entry ''rating'' VFloat (kw_rating kw) @
     entry ''featured'' VBool (kw_featured kw) @
     entry ''tags'' (\<lambda>ts. VList (map VStr ts)) (kw_tags kw) @
     entry ''specs'' (\<lambda>kv. VDict (map (\<lambda>(k, v). (k, VStr v)) kv)) (kw_specs kw)"

definition order_dict :: "'f Order \<Rightarrow> (string \<times> 'f val) list" where
  "order_dict ord =
     [(''email'', VStr (email ord)),
      (''items'', VList (map (\<lambda>d. VDict (map (\<lambda>(k, n). (k, VInt n)) d)) (items ord))),
      (''total'', VFloat (total ord)),
      (''status'', VStr (status ord))]"

definition doc_dict :: "'f document \<Rightarrow> (string \<times> 'f val) list" where
  "doc_dict d =
     entry ''_id'' val_of_ident (doc_id d) @
     (case body d of ProductBody kw \<Rightarrow> product_dict kw | OrderBody ord \<Rightarrow> order_dict ord)"

text \<open>The schema's fields of a document, as \<open>**d_copy\<close> hands them to a product model.\<close>

definition no_fields :: "'f product_fields" where
  "no_fields =
     \<lparr> kw_title = None, kw_description = None, kw_price = None, kw_category = None,
       kw_images = None, kw_in_stock = None, kw_stock_qty = None, kw_rating = None,
       kw_featured = None, kw_tags = None, kw_specs = None \<rparr>"

definition product_kwargs :: "'f document \<Rightarrow> 'f product_fields" where
  "product_kwargs d = (case body d of ProductBody kw \<Rightarrow> kw | OrderBody _ \<Rightarrow> no_fields)"

text \<open>An equality filter: every key of the filter is a key of the document with that value.\<close>

definition matches :: "(string \<times> 'f val) list \<Rightarrow> 'f document \<Rightarrow> bool" where
  "matches query d = list_all (\<lambda>(k, v). map_of (doc_dict d) k = Some v) query"

text \<open>
  \<open>db[name].find_one(filter)\<close> of the driver: the first document of the collection that
  matches, or \<open>None\<close>.
\<close>

definition find_one :: "'f database \<Rightarrow> string \<Rightarrow> (string \<times> 'f val) list \<Rightarrow> 'f document option" where
  "find_one s name query = find (matches query) (collections s name)"

text \<open>
  Modelled from the spec: \<open>database.get_documents\<close> and \<open>database.create_document\<close> (module
  \<open>database\<close> is imported by main.py and is not among the sources). Section 4.1:
  \<open>query(collectionName, filter, limit)\<close> returns up to \<open>limit\<close> documents matching an equality
  filter, no filter fields meaning "match all", and fails with \<open>StoreUnavailable\<close> when the
  store is not initialised; \<open>insert(collectionName, document)\<close> serialises a validated entity,
  inserts it and returns a string identifier, and fails with \<open>StoreUnavailable\<close> when no
  connection is configured. Both return the store next to their result, to show what they
  write. The identifier assigned by \<open>insert\<close> is drawn from a counter kept with the store.
  A failure of the store itself while writing (\<open>WriteError\<close>) is a fault of the environment
  and has no branch here.
\<close>

definition get_documents ::
  "string \<Rightarrow> (string \<times> 'f val) list \<Rightarrow> int \<Rightarrow> 'f database option
     \<Rightarrow> (error + 'f document list) \<times> 'f database option" where
  "get_documents name query limit db =
     (case db of
        None \<Rightarrow> (Inl StoreUnavailable, db)
      | Some s \<Rightarrow> (Inr (take (nat limit) (filter (matches query) (collections s name))), db))"

definition create_document ::
  "string \<Rightarrow> 'f body \<Rightarrow> 'f database option \<Rightarrow> (error + string) \<times> 'f database option" where
  "create_document name data db =
     (case db of
        None \<Rightarrow> (Inl StoreUnavailable, db)
      | Some s \<Rightarrow>
          (let oid = Oid (hex_of 24 (next_id s));
               d = \<lparr> doc_id = Some (ObjId oid), body = data \<rparr>
           in (Inr (str_oid oid),
               Some (s\<lparr> collections := (collections s)(name := collections s name @ [d]),
                       next_id := Suc (next_id s) \<rparr>))))"

section \<open>Listing products (main.py, \<open>list_products\<close>)\<close>

text \<open>
  \<open>if category:\<close> holds for a string that is there and not empty; \<open>if featured is not None:\<close>
  for either boolean.
\<close>

definition build_query :: "string option \<Rightarrow> bool option \<Rightarrow> (string \<times> 'f val) list" where
  "build_query category_arg featured_arg =
     (case category_arg of
        None \<Rightarrow> []
      | Some c \<Rightarrow> if c = [] then [] else [(''category'', VStr c)]) @
     (case featured_arg of None \<Rightarrow> [] | Some b \<Rightarrow> [(''featured'', VBool b)])"

text \<open>
  \<open>_id = d_copy.pop("_id", None)\<close>, then, inside \<open>try\<close>, \<open>id_str = str(_id) if _id else ""\<close>, and
  \<open>id_str = ""\<close> in the \<open>except\<close> branch. \<open>None\<close> is false, so a document without \<open>_id\<close> takes the
  \<open>else\<close> side, as does an identifier that is false; \<open>str\<close> raising takes the \<open>except\<close> branch.
\<close>

definition id_of_doc :: "'f document \<Rightarrow> string" where
  "id_of_doc d =
     (case doc_id d of
        None \<Rightarrow> []
      | Some v \<Rightarrow>
          if truthy v then (case str_ident v of None \<Rightarrow> [] | Some s \<Rightarrow> s) else [])"

fun reshape :: "'f platform \<Rightarrow> 'f document list \<Rightarrow> error + 'f DroneProductOut list" where
  "reshape pf [] = Inr []"
| "reshape pf (d # ds) =
     (case new_DroneProductOut pf (id_of_doc d) (product_kwargs d) of
        Inl e \<Rightarrow> Inl e
      | Inr out \<Rightarrow> (case reshape pf ds of Inl e \<Rightarrow> Inl e | Inr outs \<Rightarrow> Inr (out # outs)))"

definition list_products ::
  "'f platform \<Rightarrow> string option \<Rightarrow> bool option \<Rightarrow> int \<Rightarrow> 'f database option
     \<Rightarrow> (error + 'f DroneProductOut list) \<times> 'f database option" where
  "list_products pf category_arg featured_arg limit db =
     (case get_documents ''droneproduct'' (build_query category_arg featured_arg) limit db of
        (Inl e, db') \<Rightarrow> (Inl e, db')
      | (Inr docs, db') \<Rightarrow> (reshape pf docs, db'))"

section \<open>Placing an order (main.py, \<open>create_order\<close>)\<close>

record CartItem =
  product_id :: string
  qty :: int

record CreateOrderRequest =
  req_email :: string
  req_items :: "CartItem list"

record order_response =
  resp_status :: string
  order_id :: string

text \<open>
  The \<open>try\<close> block: \<open>db["droneproduct"].find_one({"_id": ObjectId(item.product_id)})\<close>, with
  every exception (no database, an identifier that does not parse) turned into \<open>doc = None\<close>.
\<close>

definition lookup_product :: "'f database option \<Rightarrow> string \<Rightarrow> 'f document option" where
  "lookup_product db pid =
     (case db of
        None \<Rightarrow> None
      | Some s \<Rightarrow>
          (case ObjectId pid of
             None \<Rightarrow> None
           | Some oid \<Rightarrow> find_one s ''droneproduct'' [(''_id'', VOid oid)]))"

text \<open>\<open>float(doc.get("price", 0))\<close>.\<close>

definition unit_price :: "'f platform \<Rightarrow> 'f document \<Rightarrow> 'f" where
  "unit_price pf d =
     (case kw_price (product_kwargs d) of None \<Rightarrow> float_of pf 0 | Some p \<Rightarrow> p)"

definition not_found :: "string \<Rightarrow> error" where
  "not_found pid = HTTPException 404 (''Product '' @ pid @ '' not found'')"

text \<open>
  The loop over the cart, with the running total; \<open>if not doc\<close> is also true of an empty
  dictionary. In \<open>float(...) * max(1, item.qty)\<close> the integer is converted to a float, which
  raises \<open>OverflowError\<close> when it is out of range; nothing catches it.
\<close>

fun order_total :: "'f platform \<Rightarrow> 'f database option \<Rightarrow> CartItem list \<Rightarrow> 'f \<Rightarrow> error + 'f" where
  "order_total pf db [] t = Inr t"
| "order_total pf db (item # rest) t =
     (case lookup_product db (product_id item) of
        None \<Rightarrow> Inl (not_found (product_id item))
      | Some doc \<Rightarrow>
          if doc_dict doc = [] then Inl (not_found (product_id item))
          else (case float_of_int pf (max 1 (qty item)) of
                  None \<Rightarrow> Inl OverflowError
                | Some n \<Rightarrow>
                    order_total pf db rest (float_add pf t (float_mul pf (unit_price pf doc) n))))"

definition create_order ::
  "'f platform \<Rightarrow> CreateOrderRequest \<Rightarrow> 'f database option
     \<Rightarrow> (error + order_response) \<times> 'f database option" where
  "create_order pf payload db =
     (case order_total pf db (req_items payload) (float_of pf 0) of
        Inl e \<Rightarrow> (Inl e, db)
      | Inr t \<Rightarrow>
          (case new_Order pf (req_email payload)
                  (map (\<lambda>i. \<lparr> d_product_id = product_id i, d_qty = qty i \<rparr>) (req_items payload))
                  (round2 pf t) None of
             Inl e \<Rightarrow> (Inl e, db)
           | Inr ord \<Rightarrow>
               (case create_document ''order'' (OrderBody ord) db of
                  (Inl e, db') \<Rightarrow> (Inl e, db')
                | (Inr oid, db') \<Rightarrow> (Inr \<lparr> resp_status = ''ok'', order_id = oid \<rparr>, db'))))"

section \<open>The specification's formulas\<close>

text \<open>
  The total of an order as the specification writes it: the sum, over the cart in its
  order and starting from \<open>0.0\<close>, of the authoritative unit price times \<open>max(1, qty)\<close>,
  rounded to two places. A line is a pair of a unit price and a quantity; its amount is
  there when the quantity is within the range of a float, and so is the sum when every
  amount is.
\<close>

definition line_amount :: "'f platform \<Rightarrow> 'f \<times> int \<Rightarrow> 'f option" where
  "line_amount pf l = map_option (float_mul pf (fst l)) (float_of_int pf (max 1 (snd l)))"

definition spec_sum :: "'f platform \<Rightarrow> 'f \<Rightarrow> ('f \<times> int) list \<Rightarrow> 'f option" where
  "spec_sum pf t lines = map_option (foldl (float_add pf) t) (those (map (line_amount pf) lines))"


text \<open>The lines of a cart whose items resolve to the documents \<open>ds\<close>.\<close>

definition cart_lines :: "'f platform \<Rightarrow> 'f document list \<Rightarrow> CartItem list \<Rightarrow> ('f \<times> int) list" where
  "cart_lines pf ds its = zip (map (unit_price pf) ds) (map qty its)"


section \<open>Example data\<close>

text \<open>
  A small catalogue on the exact platform, with the prices of the demo data (499.00, 389.00,
  23.90) and one document that has no price.
\<close>

definition raven :: "rat document" where
  "raven =
     \<lparr> doc_id = Some (ObjId (Oid ''111111111111111111111111'')),
       body = ProductBody (no_fields\<lparr> kw_title := Some ''FPV 24/7 Raven 5'', kw_price := Some 499,
                kw_category := Some ''custom-drones'', kw_featured := Some True \<rparr>) \<rparr>"

definition cinewhoop :: "rat document" where
  "cinewhoop =
     \<lparr> doc_id = Some (ObjId (Oid ''507f1f77bcf86cd799439011'')),
       body = ProductBody (no_fields\<lparr> kw_title := Some ''CineWhoop Mini'', kw_price := Some 389,
                kw_category := Some ''custom-drones'', kw_featured := Some True \<rparr>) \<rparr>"

definition motor :: "rat document" where
  "motor =
     \<lparr> doc_id = Some (ObjId (Oid ''222222222222222222222222'')),
       body = ProductBody (no_fields\<lparr> kw_title := Some ''2207 1950KV Pro Motor'',
                kw_price := Some (239 / 10), kw_category := Some ''motors'',
                kw_featured := Some False \<rparr>) \<rparr>"

definition frame :: "rat document" where
  "frame =
     \<lparr> doc_id = Some (ObjId (Oid ''333333333333333333333333'')),
       body = ProductBody (no_fields\<lparr> kw_title := Some ''Spare frame'',
                kw_category := Some ''frames'' \<rparr>) \<rparr>"

definition shop :: "rat database" where
  "shop =
     \<lparr> collections = (\<lambda>name. if name = ''droneproduct'' then [raven, cinewhoop, motor, frame] else []),
       next_id = 5 \<rparr>"

definition item :: "string \<Rightarrow> int \<Rightarrow> CartItem" where
  "item pid q = \<lparr> product_id = pid, qty = q \<rparr>"

definition request :: "CartItem list \<Rightarrow> CreateOrderRequest" where
  "request its = \<lparr> req_email = ''pilot@example.com'', req_items = its \<rparr>"

text \<open>A quantity beyond the range of a float: \<open>float(2 ** 1024)\<close> raises \<open>OverflowError\<close>.\<close>

definition huge :: int where
  "huge = 2 ^ 1024"

text \<open>
  Documents with other identifiers: none at all, the integer 0 (which is false), an integer
  that is true, and a value whose \<open>str\<close> raises; and a store that returns them.
\<close>

definition unlabelled :: "rat document" where
  "unlabelled =
     \<lparr> doc_id = None,
       body = ProductBody (no_fields\<lparr> kw_title := Some ''Analog goggles'', kw_price := Some 120,
                kw_category := Some ''goggles'' \<rparr>) \<rparr>"

definition numbered :: "int \<Rightarrow> rat document" where
  "numbered i =
     \<lparr> doc_id = Some (IntId i),
       body = ProductBody (no_fields\<lparr> kw_title := Some ''Antenna'', kw_price := Some 12,
                kw_category := Some ''radio'' \<rparr>) \<rparr>"

definition opaque :: "rat document" where
  "opaque =
     \<lparr> doc_id = Some (OtherId True None),
       body = ProductBody (no_fields\<lparr> kw_title := Some ''Battery strap'', kw_price := Some 4,
                kw_category := Some ''batteries'' \<rparr>) \<rparr>"


text \<open>Keyword arguments: the required fields only, and a product with two fields out of range.\<close>

definition minimal_kwargs :: "rat product_fields" where
  "minimal_kwargs =
     no_fields\<lparr> kw_title := Some ''Spare frame'', kw_price := Some 35, kw_category := Some ''frames'' \<rparr>"

definition bad_kwargs :: "rat product_fields" where
  "bad_kwargs =
     no_fields\<lparr> kw_title := Some ''Spare frame'', kw_price := Some (- 1),
                kw_category := Some ''frames'', kw_stock_qty := Some (- 3), kw_rating := Some 6 \<rparr>"

section \<open>Facts about the model\<close>

subsection \<open>Looking a product up\<close>

lemma matches_id_nonempty: "matches [(''_id'', VOid oid)] d \<Longrightarrow> doc_dict d \<noteq> []"
  by (auto simp: matches_def)

lemma lookup_product_nonempty: "lookup_product db pid = Some d \<Longrightarrow> doc_dict d \<noteq> []"
  by (auto simp: lookup_product_def find_one_def find_Some_iff
      dest: matches_id_nonempty split: option.splits)

lemma lookup_product_malformed: "ObjectId pid = None \<Longrightarrow> lookup_product db pid = None"
  by (simp add: lookup_product_def split: option.splits)

subsection \<open>The loop and the sum of the lines\<close>

lemma spec_sum_Nil: "spec_sum pf t [] = Some t"
  by (simp add: spec_sum_def)

lemma spec_sum_Cons:
  "spec_sum pf t (l # ls) =
     (case line_amount pf l of None \<Rightarrow> None | Some a \<Rightarrow> spec_sum pf (float_add pf t a) ls)"
  by (simp add: spec_sum_def option.map_comp comp_def split: option.splits)

lemma spec_sum_append:
  "spec_sum pf t (ls @ ms) =
     (case spec_sum pf t ls of None \<Rightarrow> None | Some t1 \<Rightarrow> spec_sum pf t1 ms)"
  by (induction ls arbitrary: t) (simp_all add: spec_sum_Nil spec_sum_Cons split: option.splits)

lemma cart_lines_Cons:
  "cart_lines pf (d # ds) (it # its) = (unit_price pf d, qty it) # cart_lines pf ds its"
  by (simp add: cart_lines_def)

lemma cart_lines_append:
  "length ds1 = length pre \<Longrightarrow>
   cart_lines pf (ds1 @ ds2) (pre @ post) = cart_lines pf ds1 pre @ cart_lines pf ds2 post"
  by (simp add: cart_lines_def)

lemma order_total_resolved:
  "list_all2 (\<lambda>it d. lookup_product db (product_id it) = Some d) its ds \<Longrightarrow>
   order_total pf db its t =
     (case spec_sum pf t (cart_lines pf ds its) of None \<Rightarrow> Inl OverflowError | Some t' \<Rightarrow> Inr t')"
proof (induction its ds arbitrary: t rule: list_all2_induct)
  case Nil
  then show ?case by (simp add: cart_lines_def spec_sum_Nil)
next
  case (Cons it its d ds)
  then show ?case
    by (simp add: lookup_product_nonempty cart_lines_Cons spec_sum_Cons line_amount_def
        split: option.splits)
qed

lemma order_total_unresolved:
  "find (\<lambda>it. lookup_product db (product_id it) = None) its = Some bad \<Longrightarrow>
   order_total pf db its t =
     Inl (if list_all (\<lambda>it. float_of_int pf (max 1 (qty it)) \<noteq> None)
               (takeWhile (\<lambda>it. lookup_product db (product_id it) \<noteq> None) its)
          then not_found (product_id bad) else OverflowError)"
proof (induction its arbitrary: t)
  case Nil
  then show ?case by simp
next
  case (Cons it its)
  then show ?case
    by (cases "lookup_product db (product_id it)")
       (auto simp: lookup_product_nonempty split: option.splits)
qed

subsection \<open>The example data, evaluated\<close>

lemma ObjectId_examples:
  "ObjectId ''111111111111111111111111'' = Some (Oid ''111111111111111111111111'')"
  "ObjectId ''222222222222222222222222'' = Some (Oid ''222222222222222222222222'')"
  "ObjectId ''333333333333333333333333'' = Some (Oid ''333333333333333333333333'')"
  "ObjectId ''507f1f77bcf86cd799439011'' = Some (Oid ''507f1f77bcf86cd799439011'')"
  "ObjectId ''not-an-id'' = None"
  by (simp_all add: ObjectId_def is_hex_digit_def lower_hex_def)

lemma doc_id_examples:
  "doc_id raven = Some (ObjId (Oid ''111111111111111111111111''))"
  "doc_id cinewhoop = Some (ObjId (Oid ''507f1f77bcf86cd799439011''))"
  "doc_id motor = Some (ObjId (Oid ''222222222222222222222222''))"
  "doc_id frame = Some (ObjId (Oid ''333333333333333333333333''))"
  "doc_id unlabelled = None"
  "doc_id (numbered i) = Some (IntId i)"
  "doc_id opaque = Some (OtherId True None)"
  by (simp_all add: raven_def cinewhoop_def motor_def frame_def unlabelled_def numbered_def
      opaque_def)

lemma map_of_entry:
  "map_of (entry k f v) k' = (if k' = k then map_option f v else None)"
  by (cases v) (simp_all add: entry_def)

lemma map_of_product_dict_id: "map_of (product_dict kw) ''_id'' = None"
  by (simp add: product_dict_def map_add_def map_of_entry)

lemma map_of_order_dict_id: "map_of (order_dict ord) ''_id'' = None"
  by (simp add: order_dict_def)

lemma map_of_doc_dict_id: "map_of (doc_dict d) ''_id'' = map_option val_of_ident (doc_id d)"
  by (cases "doc_id d"; cases "body d")
     (simp_all add: doc_dict_def map_add_def map_of_entry map_of_product_dict_id map_of_order_dict_id)

lemma val_of_ident_VOid: "val_of_ident v = VOid oid \<longleftrightarrow> v = ObjId oid"
  by (cases v) simp_all

lemma matches_id: "matches [(''_id'', VOid oid)] d \<longleftrightarrow> doc_id d = Some (ObjId oid)"
  by (cases "doc_id d") (simp_all add: matches_def map_of_doc_dict_id val_of_ident_VOid)

lemma lookup_examples:
  "lookup_product (Some shop) ''111111111111111111111111'' = Some raven"
  "lookup_product (Some shop) ''222222222222222222222222'' = Some motor"
  "lookup_product (Some shop) ''333333333333333333333333'' = Some frame"
  "lookup_product (Some shop) ''507f1f77bcf86cd799439011'' = Some cinewhoop"
  "lookup_product (Some shop) ''not-an-id'' = None"
  by (simp_all add: lookup_product_def ObjectId_examples find_one_def shop_def matches_id doc_id_examples)

lemma unit_price_examples:
  "unit_price exact_platform raven = 499"
  "unit_price exact_platform motor = 239 / 10"
  "unit_price exact_platform cinewhoop = 389"
  "unit_price exact_platform frame = 0"
  by (simp_all add: unit_price_def product_kwargs_def raven_def motor_def cinewhoop_def frame_def
      no_fields_def exact_platform_def)

lemma int_of_str_examples:
  "int_of_str ''111111111111111111111111'' = Some 111111111111111111111111"
  "int_of_str ''222222222222222222222222'' = Some 222222222222222222222222"
  "int_of_str ''507f1f77bcf86cd799439011'' = None"
  by (simp_all add: int_of_str_def digit_val_def)

lemma doc_dict_examples:
  "doc_dict raven \<noteq> []" "doc_dict motor \<noteq> []" "doc_dict cinewhoop \<noteq> []" "doc_dict frame \<noteq> []"
  by (simp_all add: doc_dict_def entry_def doc_id_examples)

lemma exact_platform_simps:
  "float_of exact_platform r = r"
  "float_le exact_platform a b \<longleftrightarrow> a \<le> b"
  "float_add exact_platform a b = a + b"
  "float_mul exact_platform a b = a * b"
  "round2 exact_platform r = of_int (floor (r * 100 + 1 / 2)) / 100"
  by (simp_all add: exact_platform_def)

lemma float_of_int_exact:
  "float_of_int exact_platform i = (if \<bar>i\<bar> < 2 ^ 1024 then Some (of_int i) else None)"
  by (simp add: exact_platform_def)

lemma float_of_int_examples:
  "float_of_int exact_platform 1 = Some 1"
  "float_of_int exact_platform 2 = Some 2"
  "float_of_int exact_platform 4 = Some 4"
  by (simp_all add: exact_platform_def)

lemma float_of_int_overflow: "float_of_int exact_platform (max 1 huge) = None"
proof -
  have "max 1 huge = (2 ^ 1024 :: int)" by (simp add: huge_def)
  then show ?thesis by (subst float_of_int_exact) simp
qed

lemma line_amount_examples:
  "line_amount exact_platform (499, 0) = Some 499"
  "line_amount exact_platform (499, 1) = Some 499"
  "line_amount exact_platform (239 / 10, 2) = Some (239 / 5)"
  "line_amount exact_platform (0, 4) = Some 0"
  by (simp_all add: line_amount_def float_of_int_examples exact_platform_simps)

lemma round2_exact: "round2 exact_platform (of_int n / 100) = of_int n / 100"
proof -
  have "\<lfloor>rat_of_int n + 1 / 2\<rfloor> = n" by linarith
  then show ?thesis by (simp add: exact_platform_def)
qed

section \<open>The order total\<close>




section \<open>A product that does not resolve\<close>

text \<open>
  C3 (as amended). When some product id of the cart does not resolve (no database, an
  identifier that does not parse, or no document with that identifier), \<open>create_order\<close>
  fails and the store is returned as it was: no order is written. The error is the 404 that
  names the first such id when the quantity of every item before it, clamped to at least 1,
  is within the range of a float, and \<open>OverflowError\<close> otherwise.
\<close>

theorem create_order_not_found:
  assumes "find (\<lambda>it. lookup_product db (product_id it) = None) (req_items payload) = Some bad"
  shows "create_order pf payload db =
           (Inl (if list_all (\<lambda>it. float_of_int pf (max 1 (qty it)) \<noteq> None)
                      (takeWhile (\<lambda>it. lookup_product db (product_id it) \<noteq> None) (req_items payload))
                 then HTTPException 404 (''Product '' @ product_id bad @ '' not found'')
                 else OverflowError), db)"
  using order_total_unresolved [OF assms, of pf "float_of pf 0"]
  by (simp add: create_order_def not_found_def)

theorem create_order_not_found_witness:
  "ObjectId ''not-an-id'' = None \<and>
   find (\<lambda>it. lookup_product (Some shop) (product_id it) = None)
     (req_items (request [item ''111111111111111111111111'' 1, item ''not-an-id'' 3])) =
     Some (item ''not-an-id'' 3) \<and>
   create_order exact_platform (request [item ''111111111111111111111111'' 1, item ''not-an-id'' 3])
     (Some shop) = (Inl (HTTPException 404 ''Product not-an-id not found''), Some shop)"
proof -
  have h: "find (\<lambda>it. lookup_product (Some shop) (product_id it) = None)
     (req_items (request [item ''111111111111111111111111'' 1, item ''not-an-id'' 3])) =
     Some (item ''not-an-id'' 3)"
    by (simp add: request_def item_def lookup_examples)
  from create_order_not_found [OF h, of exact_platform] h show ?thesis
    by (simp add: request_def item_def ObjectId_examples lookup_examples float_of_int_examples)
qed

text \<open>
  The claim as it was stated, with the 404 in every case, fails when an item before the
  unresolved one has a quantity beyond the range of a float: the loop reaches that item
  first and ends with \<open>OverflowError\<close>.
\<close>

theorem create_order_not_found_counterexample:
  "lookup_product (Some shop) ''not-an-id'' = None \<and>
   create_order exact_platform
     (request [item ''111111111111111111111111'' huge, item ''not-an-id'' 1]) (Some shop) =
     (Inl OverflowError, Some shop)"
  by (simp add: create_order_def request_def item_def lookup_examples doc_dict_examples
      float_of_int_overflow)

section \<open>Building and persisting the order\<close>

text \<open>
  C2. The specification has every cart whose items resolve end in a persisted order that
  holds the item list verbatim, and in the response \<open>{status: "ok", order_id}\<close>. The schema
  declares \<open>items: List[Dict[str, int]]\<close>, so the product id of each item is validated as
  an integer. For the stored product \<open>507f1f77bcf86cd799439011\<close> the lookup succeeds and the
  total is computed, but the construction of the \<open>Order\<close> raises a validation error at
  \<open>items.0.product_id\<close>: no order is written and no success response is returned.
\<close>

theorem create_order_hex_id_rejected:
  "lookup_product (Some shop) ''507f1f77bcf86cd799439011'' = Some cinewhoop \<and>
   create_order exact_platform (request [item ''507f1f77bcf86cd799439011'' 1]) (Some shop) =
     (Inl (ValidationError [[Fld ''items'', Idx 0, Fld ''product_id'']]), Some shop)"
proof -
  have t: "order_total exact_platform (Some shop) [item ''507f1f77bcf86cd799439011'' 1] 0 = Inr 389"
    by (simp add: item_def lookup_examples doc_dict_examples unit_price_examples
        float_of_int_examples exact_platform_simps)
  have r: "round2 exact_platform 389 = 389" using round2_exact [of 38900] by simp
  have o: "new_Order exact_platform ''pilot@example.com''
      [\<lparr> d_product_id = ''507f1f77bcf86cd799439011'', d_qty = 1 \<rparr>] 389 None =
     Inl (ValidationError [[Fld ''items'', Idx 0, Fld ''product_id'']])"
    by (simp add: new_Order_def Order_errors_def item_errors_def
        int_of_str_examples exact_platform_simps)
  show ?thesis
    using t by (simp add: create_order_def request_def exact_platform_simps(1) r o item_def lookup_examples)
qed

section \<open>A product without a price\<close>

text \<open>
  C9 (as amended). When the document an item resolves to has no price field, the loop does
  not fail for it: it goes on with the unit price \<open>float(0)\<close>. In a cart whose items all
  resolve, with the items \<open>pre\<close> before that one and \<open>post\<close> after it, the loop ends with the
  sum of the lines of \<open>pre\<close>, plus \<open>float(0) * max(1, qty)\<close>, plus the lines of \<open>post\<close>; in an
  arithmetic where that product is \<open>0.0\<close> and adding \<open>0.0\<close> changes nothing, this is the
  total of the cart without the item. The line fails only as the line of a priced product
  does, with \<open>OverflowError\<close> when its quantity is beyond the range of a float.
\<close>

theorem create_order_missing_price:
  assumes "list_all2 (\<lambda>it d. lookup_product db (product_id it) = Some d)
             (pre @ it # post) (ds1 @ d # ds2)"
    and "length ds1 = length pre"
    and "kw_price (product_kwargs d) = None"
  shows "order_total pf db (pre @ it # post) t =
           (case spec_sum pf t (cart_lines pf ds1 pre) of
              None \<Rightarrow> Inl OverflowError
            | Some t1 \<Rightarrow>
                (case float_of_int pf (max 1 (qty it)) of
                   None \<Rightarrow> Inl OverflowError
                 | Some n \<Rightarrow>
                     (case spec_sum pf (float_add pf t1 (float_mul pf (float_of pf 0) n))
                             (cart_lines pf ds2 post) of
                        None \<Rightarrow> Inl OverflowError
                      | Some t2 \<Rightarrow> Inr t2))) \<and>
         (\<forall>t1 n. spec_sum pf t (cart_lines pf ds1 pre) = Some t1 \<and>
                 float_of_int pf (max 1 (qty it)) = Some n \<and>
                 float_mul pf (float_of pf 0) n = float_of pf 0 \<and>
                 float_add pf t1 (float_of pf 0) = t1 \<longrightarrow>
            order_total pf db (pre @ it # post) t =
              (case spec_sum pf t (cart_lines pf (ds1 @ ds2) (pre @ post)) of
                 None \<Rightarrow> Inl OverflowError
               | Some t2 \<Rightarrow> Inr t2))"
proof -
  have p: "unit_price pf d = float_of pf 0"
    using assms(3) by (simp add: unit_price_def)
  have lines: "cart_lines pf (ds1 @ d # ds2) (pre @ it # post) =
                 cart_lines pf ds1 pre @ (float_of pf 0, qty it) # cart_lines pf ds2 post"
    using assms(2) by (simp add: cart_lines_append cart_lines_Cons p)
  have without: "cart_lines pf (ds1 @ ds2) (pre @ post) = cart_lines pf ds1 pre @ cart_lines pf ds2 post"
    using assms(2) by (rule cart_lines_append)
  have loop: "order_total pf db (pre @ it # post) t =
      (case spec_sum pf t (cart_lines pf ds1 pre @ (float_of pf 0, qty it) # cart_lines pf ds2 post) of
         None \<Rightarrow> Inl OverflowError | Some t' \<Rightarrow> Inr t')"
    using order_total_resolved [OF assms(1), of pf t] by (simp add: lines)
  show ?thesis
    unfolding loop without
    by (auto simp: spec_sum_append spec_sum_Cons line_amount_def split: option.splits)
qed

theorem create_order_missing_price_witness:
  "list_all2 (\<lambda>it d. lookup_product (Some shop) (product_id it) = Some d)
     ([item ''111111111111111111111111'' 1] @ item ''333333333333333333333333'' 4 #
        [item ''222222222222222222222222'' 2])
     ([raven] @ frame # [motor]) \<and>
   kw_price (product_kwargs frame) = None \<and>
   order_total exact_platform (Some shop)
     [item ''111111111111111111111111'' 1, item ''333333333333333333333333'' 4,
      item ''222222222222222222222222'' 2] 0 = Inr (2734 / 5) \<and>
   order_total exact_platform (Some shop)
     [item ''111111111111111111111111'' 1, item ''222222222222222222222222'' 2] 0 = Inr (2734 / 5)"
proof -
  have h1: "list_all2 (\<lambda>it d. lookup_product (Some shop) (product_id it) = Some d)
     ([item ''111111111111111111111111'' 1] @ item ''333333333333333333333333'' 4 #
        [item ''222222222222222222222222'' 2])
     ([raven] @ frame # [motor])"
    by (simp add: item_def lookup_examples)
  have h2: "length [raven] = length [item ''111111111111111111111111'' 1]" by simp
  have h3: "kw_price (product_kwargs frame) = (None :: rat option)"
    by (simp add: product_kwargs_def frame_def no_fields_def)
  have pre: "spec_sum exact_platform 0
               (cart_lines exact_platform [raven] [item ''111111111111111111111111'' 1]) = Some 499"
    by (simp add: cart_lines_def item_def unit_price_examples spec_sum_Cons spec_sum_Nil
        line_amount_examples exact_platform_simps)
  have post: "spec_sum exact_platform 499
               (cart_lines exact_platform [motor] [item ''222222222222222222222222'' 2]) =
              Some (2734 / 5)"
    by (simp add: cart_lines_def item_def unit_price_examples spec_sum_Cons spec_sum_Nil
        line_amount_examples exact_platform_simps)
  have q: "float_of_int exact_platform (max 1 (qty (item ''333333333333333333333333'' 4))) = Some 4"
    by (simp add: item_def float_of_int_examples)
  have other: "order_total exact_platform (Some shop)
     [item ''111111111111111111111111'' 1, item ''222222222222222222222222'' 2] 0 = Inr (2734 / 5)"
    by (simp add: item_def lookup_examples doc_dict_examples unit_price_examples
        float_of_int_examples exact_platform_simps)
  from create_order_missing_price [OF h1 h2 h3, of exact_platform 0]
  have "order_total exact_platform (Some shop)
     ([item ''111111111111111111111111'' 1] @ item ''333333333333333333333333'' 4 #
        [item ''222222222222222222222222'' 2]) 0 = Inr (2734 / 5)"
    by (simp add: pre post q exact_platform_simps)
  with h1 h3 other show ?thesis by simp
qed

text \<open>
  The claim as it was stated, with no failure at all for the missing price, fails at a
  quantity beyond the range of a float: the document without a price resolves, and the
  multiplication of \<open>float(0)\<close> by that quantity raises \<open>OverflowError\<close>.
\<close>

theorem create_order_missing_price_counterexample:
  "lookup_product (Some shop) ''333333333333333333333333'' = Some frame \<and>
   kw_price (product_kwargs frame) = None \<and>
   order_total exact_platform (Some shop) [item ''333333333333333333333333'' huge] 0 =
     Inl OverflowError"
proof -
  have p: "kw_price (product_kwargs frame) = (None :: rat option)"
    by (simp add: product_kwargs_def frame_def no_fields_def)
  have t: "order_total exact_platform (Some shop) [item ''333333333333333333333333'' huge] 0 =
             Inl OverflowError"
    by (simp add: item_def lookup_examples doc_dict_examples float_of_int_overflow)
  from p t show ?thesis by (simp add: lookup_examples)
qed

section \<open>The empty cart\<close>

text \<open>
  C10. With no items and a database configured, \<open>create_order\<close> succeeds whatever the
  catalogue holds (no product is looked up, and the collection of products is untouched):
  it appends one order with the given email, no items, the total \<open>round(0.0, 2)\<close> and the
  status \<open>pending\<close>, and returns the identifier assigned to it. The arithmetic has to accept
  that total as non-negative, as the schema checks \<open>total >= 0\<close>; where \<open>round(0.0, 2)\<close> is
  \<open>0.0\<close> the total is 0.
\<close>

theorem create_order_empty_cart:
  assumes "float_le pf (float_of pf 0) (round2 pf (float_of pf 0))"
  shows "create_order pf \<lparr> req_email = e, req_items = [] \<rparr> (Some s) =
           (Inr \<lparr> resp_status = ''ok'', order_id = hex_of 24 (next_id s) \<rparr>,
            Some (s\<lparr> collections := (collections s)
                      (''order'' := collections s ''order'' @
                         [\<lparr> doc_id = Some (ObjId (Oid (hex_of 24 (next_id s)))),
                            body = OrderBody \<lparr> email = e, items = [],
                                     total = round2 pf (float_of pf 0), status = ''pending'' \<rparr> \<rparr>]),
                    next_id := Suc (next_id s) \<rparr>)) \<and>
         (round2 pf (float_of pf 0) = float_of pf 0 \<longrightarrow>
            (\<exists>resp s' d ord. create_order pf \<lparr> req_email = e, req_items = [] \<rparr> (Some s) = (Inr resp, Some s') \<and>
               collections s' ''order'' = collections s ''order'' @ [d] \<and>
               collections s' ''droneproduct'' = collections s ''droneproduct'' \<and>
               body d = OrderBody ord \<and> total ord = float_of pf 0 \<and> status ord = ''pending'' \<and>
               doc_id d = Some (ObjId (Oid (order_id resp)))))"
proof -
  have run: "create_order pf \<lparr> req_email = e, req_items = [] \<rparr> (Some s) =
           (Inr \<lparr> resp_status = ''ok'', order_id = hex_of 24 (next_id s) \<rparr>,
            Some (s\<lparr> collections := (collections s)
                      (''order'' := collections s ''order'' @
                         [\<lparr> doc_id = Some (ObjId (Oid (hex_of 24 (next_id s)))),
                            body = OrderBody \<lparr> email = e, items = [],
                                     total = round2 pf (float_of pf 0), status = ''pending'' \<rparr> \<rparr>]),
                    next_id := Suc (next_id s) \<rparr>))"
    using assms
    by (simp add: create_order_def new_Order_def Order_errors_def or_default_def
        create_document_def Let_def)
  show ?thesis unfolding run by simp
qed

theorem create_order_empty_cart_witness:
  "float_le exact_platform (float_of exact_platform 0) (round2 exact_platform (float_of exact_platform 0)) \<and>
   round2 exact_platform (float_of exact_platform 0) = float_of exact_platform 0 \<and>
   create_order exact_platform \<lparr> req_email = ''pilot@example.com'', req_items = [] \<rparr> (Some shop) =
     (Inr \<lparr> resp_status = ''ok'', order_id = ''000000000000000000000005'' \<rparr>,
      Some (shop\<lparr> collections := (collections shop)
                (''order'' := [\<lparr> doc_id = Some (ObjId (Oid ''000000000000000000000005'')),
                      body = OrderBody \<lparr> email = ''pilot@example.com'', items = [],
                               total = 0, status = ''pending'' \<rparr> \<rparr>]),
              next_id := 6 \<rparr>))"
proof -
  have r: "round2 exact_platform 0 = 0" using round2_exact [of 0] by simp
  have h: "float_le exact_platform (float_of exact_platform 0) (round2 exact_platform (float_of exact_platform 0))"
    by (simp add: exact_platform_simps(1,2) r)
  have x: "hex_of 24 5 = ''000000000000000000000005''" by code_simp
  have n: "next_id shop = 5" "collections shop ''order'' = []" by (simp_all add: shop_def)
  from create_order_empty_cart [OF h, of "''pilot@example.com''" shop] h
  show ?thesis by (simp add: exact_platform_simps(1) r x n)
qed

section \<open>Facts about listing and validation\<close>











lemma list_products_Inr:
  "list_products pf category_arg featured_arg limit db = (Inr outs, db') \<Longrightarrow>
   \<exists>s. db = Some s \<and> db' = db \<and>
       reshape pf (take (nat limit)
         (filter (matches (build_query category_arg featured_arg)) (collections s ''droneproduct''))) = Inr outs"
  by (auto simp: list_products_def get_documents_def split: option.splits)

lemma new_DroneProduct_ok:
  "DroneProduct_errors pf kw = [] \<Longrightarrow> \<exists>p. new_DroneProduct pf kw = Inr p"
  by (auto simp: new_DroneProduct_def DroneProduct_errors_def required_errors_def price_errors_def
      split: option.splits)





lemma in_set_DroneProduct_errors:
  "set (DroneProduct_errors pf kw) =
     set (required_errors ''title'' (kw_title kw)) \<union> set (price_errors pf (kw_price kw)) \<union>
     set (required_errors ''category'' (kw_category kw)) \<union> set (images_errors pf (kw_images kw)) \<union>
     set (stock_qty_errors (kw_stock_qty kw)) \<union> set (rating_errors pf (kw_rating kw))"
  by (auto simp: DroneProduct_errors_def)

lemma new_DroneProduct_fails:
  "DroneProduct_errors pf kw \<noteq> [] \<Longrightarrow>
   new_DroneProduct pf kw = Inl (ValidationError (DroneProduct_errors pf kw))"
  by (auto simp: new_DroneProduct_def split: list.splits option.splits)

lemma new_DroneProduct_reports:
  assumes "e \<in> set (DroneProduct_errors pf kw)"
  shows "\<exists>es. new_DroneProduct pf kw = Inl (ValidationError es) \<and> e \<in> set es"
proof -
  from assms have "DroneProduct_errors pf kw \<noteq> []" by (cases "DroneProduct_errors pf kw") simp_all
  then have "new_DroneProduct pf kw = Inl (ValidationError (DroneProduct_errors pf kw))"
    by (rule new_DroneProduct_fails)
  with assms show ?thesis by blast
qed

lemma images_errors_valid:
  "\<forall>u\<in>set (or_default [] (kw_images kw)). http_url_ok pf u \<Longrightarrow> images_errors pf (kw_images kw) = []"
  by (cases "kw_images kw") (auto simp: images_errors_def or_default_def filter_empty_conv)

lemma kwargs_fields:
  "kw_title minimal_kwargs = Some ''Spare frame''" "kw_price minimal_kwargs = Some 35"
  "kw_category minimal_kwargs = Some ''frames''" "kw_images minimal_kwargs = None"
  "kw_in_stock minimal_kwargs = None" "kw_stock_qty minimal_kwargs = None"
  "kw_rating minimal_kwargs = None" "kw_featured minimal_kwargs = None"
  "kw_tags minimal_kwargs = None" "kw_specs minimal_kwargs = None"
  "kw_description minimal_kwargs = None"
  "kw_price bad_kwargs = Some (- 1)" "kw_stock_qty bad_kwargs = Some (- 3)"
  "kw_rating bad_kwargs = Some 6"
  by (simp_all add: minimal_kwargs_def bad_kwargs_def no_fields_def)












section \<open>Filtering by category\<close>




section \<open>Listing does not write\<close>

text \<open>
  C8. \<open>list_products\<close> hands the store back as it received it, so a second call with the same
  arguments, made on the store the first call left, returns what the first returned.
\<close>

theorem list_products_read_only:
  "snd (list_products pf category_arg featured_arg limit db) = db \<and>
   list_products pf category_arg featured_arg limit
     (snd (list_products pf category_arg featured_arg limit db)) =
   list_products pf category_arg featured_arg limit db"
proof -
  have "snd (list_products pf category_arg featured_arg limit db) = db"
    by (simp add: list_products_def get_documents_def split: option.splits)
  then show ?thesis by simp
qed

section \<open>The identifier of an output record\<close>




section \<open>Constraints of the product schema\<close>

text \<open>
  C5. Constructing a \<open>DroneProduct\<close> with a price that is not \<open>>= 0\<close>, a negative
  \<open>stock_qty\<close>, or a rating outside \<open>[0, 5]\<close> fails with a validation error that lists the
  offending field, whatever the other arguments are. When the three constraints hold (and
  the other arguments are valid: title, price and category given, every image a valid URL)
  the construction succeeds.
\<close>

theorem DroneProduct_constraints:
  "(\<forall>p. kw_price kw = Some p \<and> \<not> float_le pf (float_of pf 0) p \<longrightarrow>
      (\<exists>es. new_DroneProduct pf kw = Inl (ValidationError es) \<and> [Fld ''price''] \<in> set es)) \<and>
   (\<forall>q. kw_stock_qty kw = Some q \<and> q < 0 \<longrightarrow>
      (\<exists>es. new_DroneProduct pf kw = Inl (ValidationError es) \<and> [Fld ''stock_qty''] \<in> set es)) \<and>
   (\<forall>r. kw_rating kw = Some r \<and>
        \<not> (float_le pf (float_of pf 0) r \<and> float_le pf r (float_of pf 5)) \<longrightarrow>
      (\<exists>es. new_DroneProduct pf kw = Inl (ValidationError es) \<and> [Fld ''rating''] \<in> set es)) \<and>
   (kw_title kw \<noteq> None \<and> kw_category kw \<noteq> None \<and>
    (\<forall>u\<in>set (or_default [] (kw_images kw)). http_url_ok pf u) \<and>
    (\<exists>p. kw_price kw = Some p \<and> float_le pf (float_of pf 0) p) \<and>
    (\<forall>q. kw_stock_qty kw = Some q \<longrightarrow> 0 \<le> q) \<and>
    (\<forall>r. kw_rating kw = Some r \<longrightarrow>
       float_le pf (float_of pf 0) r \<and> float_le pf r (float_of pf 5)) \<longrightarrow>
      (\<exists>dp. new_DroneProduct pf kw = Inr dp))"
proof (intro conjI allI impI)
  fix p
  assume a: "kw_price kw = Some p \<and> \<not> float_le pf (float_of pf 0) p"
  then have "[Fld ''price''] \<in> set (DroneProduct_errors pf kw)"
    by (simp add: in_set_DroneProduct_errors price_errors_def)
  then show "\<exists>es. new_DroneProduct pf kw = Inl (ValidationError es) \<and> [Fld ''price''] \<in> set es"
    by (rule new_DroneProduct_reports)
next
  fix q
  assume a: "kw_stock_qty kw = Some q \<and> q < 0"
  then have "[Fld ''stock_qty''] \<in> set (DroneProduct_errors pf kw)"
    by (simp add: in_set_DroneProduct_errors stock_qty_errors_def)
  then show "\<exists>es. new_DroneProduct pf kw = Inl (ValidationError es) \<and> [Fld ''stock_qty''] \<in> set es"
    by (rule new_DroneProduct_reports)
next
  fix r
  assume a: "kw_rating kw = Some r \<and>
        \<not> (float_le pf (float_of pf 0) r \<and> float_le pf r (float_of pf 5))"
  then have "[Fld ''rating''] \<in> set (DroneProduct_errors pf kw)"
    by (auto simp: in_set_DroneProduct_errors rating_errors_def)
  then show "\<exists>es. new_DroneProduct pf kw = Inl (ValidationError es) \<and> [Fld ''rating''] \<in> set es"
    by (rule new_DroneProduct_reports)
next
  assume a: "kw_title kw \<noteq> None \<and> kw_category kw \<noteq> None \<and>
    (\<forall>u\<in>set (or_default [] (kw_images kw)). http_url_ok pf u) \<and>
    (\<exists>p. kw_price kw = Some p \<and> float_le pf (float_of pf 0) p) \<and>
    (\<forall>q. kw_stock_qty kw = Some q \<longrightarrow> 0 \<le> q) \<and>
    (\<forall>r. kw_rating kw = Some r \<longrightarrow>
       float_le pf (float_of pf 0) r \<and> float_le pf r (float_of pf 5))"
  then have img: "images_errors pf (kw_images kw) = []"
    using images_errors_valid [of kw pf] by blast
  from a have "DroneProduct_errors pf kw = []"
    by (auto simp: DroneProduct_errors_def img required_errors_def price_errors_def
        stock_qty_errors_def rating_errors_def split: option.splits)
  then show "\<exists>dp. new_DroneProduct pf kw = Inr dp"
    by (rule new_DroneProduct_ok)
qed

theorem DroneProduct_constraints_witness:
  "(\<exists>es. new_DroneProduct exact_platform bad_kwargs = Inl (ValidationError es) \<and>
         [Fld ''price''] \<in> set es \<and> [Fld ''stock_qty''] \<in> set es \<and> [Fld ''rating''] \<in> set es) \<and>
   (\<exists>dp. new_DroneProduct exact_platform minimal_kwargs = Inr dp)"
proof -
  have bad: "kw_price bad_kwargs = Some (- 1) \<and>
             \<not> float_le exact_platform (float_of exact_platform 0) (- 1)"
    "kw_stock_qty bad_kwargs = Some (- 3) \<and> (- 3 :: int) < 0"
    "kw_rating bad_kwargs = Some 6 \<and>
       \<not> (float_le exact_platform (float_of exact_platform 0) 6 \<and>
          float_le exact_platform 6 (float_of exact_platform 5))"
    by (simp_all add: kwargs_fields exact_platform_simps)
  have good: "kw_title minimal_kwargs \<noteq> None \<and> kw_category minimal_kwargs \<noteq> None \<and>
    (\<forall>u\<in>set (or_default [] (kw_images minimal_kwargs)). http_url_ok exact_platform u) \<and>
    (\<exists>p. kw_price minimal_kwargs = Some p \<and> float_le exact_platform (float_of exact_platform 0) p) \<and>
    (\<forall>q. kw_stock_qty minimal_kwargs = Some q \<longrightarrow> 0 \<le> q) \<and>
    (\<forall>r. kw_rating minimal_kwargs = Some r \<longrightarrow>
       float_le exact_platform (float_of exact_platform 0) r \<and>
       float_le exact_platform r (float_of exact_platform 5))"
    by (simp add: kwargs_fields or_default_def exact_platform_simps)
  from DroneProduct_constraints [of bad_kwargs exact_platform] bad
  have b: "\<exists>es. new_DroneProduct exact_platform bad_kwargs = Inl (ValidationError es) \<and>
         [Fld ''price''] \<in> set es \<and> [Fld ''stock_qty''] \<in> set es \<and> [Fld ''rating''] \<in> set es"
    by (metis Inl_inject error.inject(2))
  from DroneProduct_constraints [of minimal_kwargs exact_platform] good
  have g: "\<exists>dp. new_DroneProduct exact_platform minimal_kwargs = Inr dp"
    by blast
  from b g show ?thesis by blast
qed

section \<open>Defaults of the schemas\<close>

text \<open>
  C6. A \<open>DroneProduct\<close> constructed without \<open>in_stock\<close>, \<open>stock_qty\<close>, \<open>rating\<close>,
  \<open>featured\<close>, \<open>tags\<close> or \<open>specs\<close> gets \<open>True\<close>, \<open>10\<close>, the float \<open>4.8\<close>, \<open>False\<close>, \<open>[]\<close> and
  \<open>{}\<close> for the field left out, and an \<open>Order\<close> constructed without a status gets
  \<open>"pending"\<close>.
\<close>

theorem schema_defaults:
  assumes "new_DroneProduct pf kw = Inr dp"
    and "new_Order pf e ds t None = Inr ord"
  shows "(kw_in_stock kw = None \<longrightarrow> in_stock dp = True) \<and>
         (kw_stock_qty kw = None \<longrightarrow> stock_qty dp = 10) \<and>
         (kw_rating kw = None \<longrightarrow> rating dp = float_of pf (24 / 5)) \<and>
         (kw_featured kw = None \<longrightarrow> featured dp = False) \<and>
         (kw_tags kw = None \<longrightarrow> tags dp = []) \<and>
         (kw_specs kw = None \<longrightarrow> specs dp = []) \<and>
         status ord = ''pending''"
proof -
  from assms(1) have dp: "dp =
       \<lparr> title = title dp, description = kw_description kw, price = price dp,
         category = category dp,
         images = or_default [] (kw_images kw),
         in_stock = or_default True (kw_in_stock kw),
         stock_qty = or_default 10 (kw_stock_qty kw),
         rating = or_default (float_of pf (24 / 5)) (kw_rating kw),
         featured = or_default False (kw_featured kw),
         tags = or_default [] (kw_tags kw),
         specs = or_default [] (kw_specs kw) \<rparr>"
    by (auto simp: new_DroneProduct_def split: list.splits option.splits)
  have d: "in_stock dp = or_default True (kw_in_stock kw)"
    "stock_qty dp = or_default 10 (kw_stock_qty kw)"
    "rating dp = or_default (float_of pf (24 / 5)) (kw_rating kw)"
    "featured dp = or_default False (kw_featured kw)"
    "tags dp = or_default [] (kw_tags kw)"
    "specs dp = or_default [] (kw_specs kw)"
    by (subst dp, simp)+
  from assms(2) have "status ord = ''pending''"
    by (auto simp: new_Order_def or_default_def split: list.splits)
  with d show ?thesis by (simp add: or_default_def)
qed

theorem schema_defaults_witness:
  "(\<exists>dp ord.
      new_DroneProduct exact_platform minimal_kwargs = Inr dp \<and>
      new_Order exact_platform ''pilot@example.com'' [] 0 None = Inr ord \<and>
      in_stock dp = True \<and> stock_qty dp = 10 \<and> rating dp = 24 / 5 \<and>
      featured dp = False \<and> tags dp = [] \<and> specs dp = [] \<and> status ord = ''pending'')"
proof -
  have "DroneProduct_errors exact_platform minimal_kwargs = []"
    by (simp add: kwargs_fields DroneProduct_errors_def required_errors_def price_errors_def
        images_errors_def stock_qty_errors_def rating_errors_def exact_platform_simps)
  then obtain dp where p: "new_DroneProduct exact_platform minimal_kwargs = Inr dp"
    using new_DroneProduct_ok by blast
  have o: "new_Order exact_platform ''pilot@example.com'' [] 0 None =
             Inr \<lparr> email = ''pilot@example.com'', items = [], total = 0, status = ''pending'' \<rparr>"
    by (simp add: new_Order_def Order_errors_def or_default_def exact_platform_simps)
  from schema_defaults [OF p o] p o show ?thesis
    by (simp add: kwargs_fields exact_platform_simps)
qed

end
